theory Spec2Isabelle
  imports Main "HOL-Library.AList"
begin

section \<open>Strings of the JavaScript runtime\<close>

text \<open>
  The engine \<^verbatim>\<open>src/utils/oracleParser.ts\<close> works on JavaScript strings with the
  methods of \<^verbatim>\<open>String.prototype\<close> and with regular expressions. A string is modelled
  as a \<^typ>\<open>string\<close>: its characters are the code units below 256, ASCII and Latin-1.
  The character tests are written as look-ups in explicit tables.
\<close>

text \<open>\<open>upperChar\<close> maps the letters \<open>a\<close> to \<open>z\<close> to their capitals. It is the canonical
  form under which a regular expression with the flag \<^verbatim>\<open>i\<close> compares a character with a
  character of the pattern: the patterns of the source are ASCII, and a character that
  is not ASCII has no ASCII canonical form.\<close>

definition upperChar :: "char \<Rightarrow> char" where
  "upperChar c =
     (case map_of (zip ''abcdefghijklmnopqrstuvwxyz'' ''ABCDEFGHIJKLMNOPQRSTUVWXYZ'') c of
        Some d \<Rightarrow> d
      | None \<Rightarrow> c)"

text \<open>
  \<^verbatim>\<open>toUpperCase\<close> maps, besides \<open>a\<close> to \<open>z\<close>, the small letters of Latin-1 (E0 to FE
  without the division sign F7) to their capitals (C0 to DE), and the sharp s (DF) to
  \<^verbatim>\<open>SS\<close>. Two characters have their capital beyond the code units of the model, the
  micro sign (B5) and the y with diaeresis (FF); they are left as they are here. Their
  capitals are not ASCII either, so every test of an upper-cased text against an ASCII
  keyword comes out as in JavaScript; a text that is stored in upper case is exact when
  it has neither of the two.
\<close>

definition latin1Upper :: "char \<Rightarrow> char option" where
  "latin1Upper =
     map_of (zip
       [CHR 0xE0, CHR 0xE1, CHR 0xE2, CHR 0xE3, CHR 0xE4, CHR 0xE5, CHR 0xE6, CHR 0xE7,
        CHR 0xE8, CHR 0xE9, CHR 0xEA, CHR 0xEB, CHR 0xEC, CHR 0xED, CHR 0xEE, CHR 0xEF,
        CHR 0xF0, CHR 0xF1, CHR 0xF2, CHR 0xF3, CHR 0xF4, CHR 0xF5, CHR 0xF6,
        CHR 0xF8, CHR 0xF9, CHR 0xFA, CHR 0xFB, CHR 0xFC, CHR 0xFD, CHR 0xFE]
       [CHR 0xC0, CHR 0xC1, CHR 0xC2, CHR 0xC3, CHR 0xC4, CHR 0xC5, CHR 0xC6, CHR 0xC7,
        CHR 0xC8, CHR 0xC9, CHR 0xCA, CHR 0xCB, CHR 0xCC, CHR 0xCD, CHR 0xCE, CHR 0xCF,
        CHR 0xD0, CHR 0xD1, CHR 0xD2, CHR 0xD3, CHR 0xD4, CHR 0xD5, CHR 0xD6,
        CHR 0xD8, CHR 0xD9, CHR 0xDA, CHR 0xDB, CHR 0xDC, CHR 0xDD, CHR 0xDE])"

text \<open>\<open>digit7\<close> is the highest bit of a character: it is set when the character is
  not ASCII.\<close>

definition upperText :: "char \<Rightarrow> string" where
  "upperText c =
     (if digit7 c
      then (if c = CHR 0xDF then ''SS''
            else case latin1Upper c of Some d \<Rightarrow> [d] | None \<Rightarrow> [c])
      else [upperChar c])"

definition toUpperCase :: "string \<Rightarrow> string" where
  "toUpperCase s = concat (map upperText s)"

text \<open>White space of \<^verbatim>\<open>\s\<close> and of \<^verbatim>\<open>trim\<close>: tab, line feed, vertical tab, form feed,
  carriage return, space and the no-break space.\<close>

definition isSpace :: "char \<Rightarrow> bool" where
  "isSpace c = (c \<in> set [CHR 0x09, CHR 0x0A, CHR 0x0B, CHR 0x0C, CHR 0x0D, CHR '' '', CHR 0xA0])"

definition isDigit :: "char \<Rightarrow> bool" where
  "isDigit c = (c \<in> set ''0123456789'')"

definition isWord :: "char \<Rightarrow> bool" where
  "isWord c = (c \<in> set
     ''ABCDEFGHIJKLMNOPQRSTUVWXYZabcdefghijklmnopqrstuvwxyz0123456789_'')"

text \<open>The dot of a regular expression matches everything but a line terminator.\<close>

definition isDot :: "char \<Rightarrow> bool" where
  "isDot c = (c \<notin> set [CHR 0x0A, CHR 0x0D])"

definition jsTrim :: "string \<Rightarrow> string" where
  "jsTrim s = rev (dropWhile isSpace (rev (dropWhile isSpace s)))"

fun startsWith :: "string \<Rightarrow> string \<Rightarrow> bool" where
  "startsWith s [] = True"
| "startsWith [] (p # ps) = False"
| "startsWith (x # xs) (p # ps) = (x = p \<and> startsWith xs ps)"

definition endsWith :: "string \<Rightarrow> string \<Rightarrow> bool" where
  "endsWith s p = startsWith (rev s) (rev p)"

fun includesStr :: "string \<Rightarrow> string \<Rightarrow> bool" where
  "includesStr [] p = (p = [])"
| "includesStr (x # xs) p = (startsWith (x # xs) p \<or> includesStr xs p)"

text \<open>\<^verbatim>\<open>s.split(d)\<close> for a one-character separator: the pieces between the
  separators, so that the empty string gives one empty piece.\<close>

fun splitAcc :: "char \<Rightarrow> string \<Rightarrow> string \<Rightarrow> string list" where
  "splitAcc d acc [] = [rev acc]"
| "splitAcc d acc (x # xs) =
     (if x = d then rev acc # splitAcc d [] xs else splitAcc d (x # acc) xs)"

definition splitChar :: "char \<Rightarrow> string \<Rightarrow> string list" where
  "splitChar d s = splitAcc d [] s"

text \<open>\<^verbatim>\<open>s.replace(/'/g, '')\<close>: every single quote removed.\<close>

definition stripQuotes :: "string \<Rightarrow> string" where
  "stripQuotes s = filter (\<lambda>c. c \<noteq> CHR 0x27) s"

text \<open>The relational operators compare two strings by their code units.\<close>

fun strLess :: "string \<Rightarrow> string \<Rightarrow> bool" where
  "strLess [] [] = False"
| "strLess [] (y # ys) = True"
| "strLess (x # xs) [] = False"
| "strLess (x # xs) (y # ys) =
     (if x = y then strLess xs ys else (of_char x :: nat) < of_char y)"

text \<open>A non-negative integer in a template literal is written in decimal.\<close>

definition digitChar :: "nat \<Rightarrow> char" where
  "digitChar d = ''0123456789'' ! d"

fun showNat :: "nat \<Rightarrow> string" where
  "showNat n = (if n < 10 then [digitChar n] else showNat (n div 10) @ [digitChar (n mod 10)])"

section \<open>Regular expressions\<close>

text \<open>
  The regular expressions of the source use literal characters, the classes
  \<^verbatim>\<open>\s \w \d .\<close> and one bracket class, the quantifiers \<^verbatim>\<open>* + *?\<close> on a class,
  capturing groups, one optional non-capturing group, alternatives and \<^verbatim>\<open>$\<close>. They
  are kept as syntax trees and run by a backtracking matcher that tries the choices in
  the order of the ECMAScript semantics: a greedy quantifier takes the longest run first,
  a lazy one the shortest, an optional group is entered before it is skipped, and the
  alternatives are tried from left to right.

  A literal character is compared in its canonical form \<open>upperChar\<close>: every
  expression of the source that contains a letter carries the flag \<^verbatim>\<open>i\<close>.
\<close>

datatype cls = Space | Word | Digit | Dot | OneOf string

fun inCls :: "cls \<Rightarrow> char \<Rightarrow> bool" where
  "inCls Space c = isSpace c"
| "inCls Word c = isWord c"
| "inCls Digit c = isDigit c"
| "inCls Dot c = isDot c"
| "inCls (OneOf cs) c = (c \<in> set cs)"

datatype rx =
    Chr char
  | One cls
  | Star cls
  | Plus cls
  | Lazy cls
  | Grp nat "rx list"
  | Opt "rx list"
  | Alt "rx list list"
  | Eol
  | Mark nat string

text \<open>\<open>Mark n s\<close> is not syntax: it stands behind the body of group \<open>n\<close> while the
  group is being matched, and remembers the input \<open>s\<close> at which the group began.\<close>

fun weight :: "rx \<Rightarrow> nat" where
  "weight (Chr c) = 1"
| "weight (One k) = 1"
| "weight (Star k) = 1"
| "weight (Plus k) = 3"
| "weight (Lazy k) = 1"
| "weight (Grp n rs) = 2 + sum_list (map weight rs)"
| "weight (Opt rs) = 1 + sum_list (map weight rs)"
| "weight (Alt as) = 1 + sum_list (map (\<lambda>a. 1 + sum_list (map weight a)) as)"
| "weight Eol = 1"
| "weight (Mark n s) = 1"

type_synonym captures = "(nat \<times> string) list"

function (sequential) matchHere ::
  "rx list \<Rightarrow> string \<Rightarrow> captures \<Rightarrow> (captures \<times> string) option"
where
  "matchHere [] s c = Some (c, s)"
| "matchHere (Chr a # k) [] c = None"
| "matchHere (Chr a # k) (x # xs) c = (if upperChar x = upperChar a then matchHere k xs c else None)"
| "matchHere (One cl # k) [] c = None"
| "matchHere (One cl # k) (x # xs) c = (if inCls cl x then matchHere k xs c else None)"
| "matchHere (Star cl # k) [] c = matchHere k [] c"
| "matchHere (Star cl # k) (x # xs) c =
     (if inCls cl x
      then (case matchHere (Star cl # k) xs c of Some r \<Rightarrow> Some r | None \<Rightarrow> matchHere k (x # xs) c)
      else matchHere k (x # xs) c)"
| "matchHere (Plus cl # k) s c = matchHere (One cl # Star cl # k) s c"
| "matchHere (Lazy cl # k) [] c = matchHere k [] c"
| "matchHere (Lazy cl # k) (x # xs) c =
     (case matchHere k (x # xs) c of
        Some r \<Rightarrow> Some r
      | None \<Rightarrow> (if inCls cl x then matchHere (Lazy cl # k) xs c else None))"
| "matchHere (Grp n rs # k) s c = matchHere (rs @ Mark n s # k) s c"
| "matchHere (Mark n s0 # k) s c = matchHere k s (AList.update n (take (length s0 - length s) s0) c)"
| "matchHere (Opt rs # k) s c =
     (case matchHere (rs @ k) s c of Some r \<Rightarrow> Some r | None \<Rightarrow> matchHere k s c)"
| "matchHere (Alt [] # k) s c = None"
| "matchHere (Alt (a # as) # k) s c =
     (case matchHere (a @ k) s c of Some r \<Rightarrow> Some r | None \<Rightarrow> matchHere (Alt as # k) s c)"
| "matchHere (Eol # k) s c = (if s = [] then matchHere k s c else None)"
  by pat_completeness auto
termination
  by (relation "measures [\<lambda>(rs, s, c). sum_list (map weight rs), \<lambda>(rs, s, c). length s]") auto

text \<open>\<open>matchHere rs s c\<close> matches the pattern \<open>rs\<close> at the beginning of \<open>s\<close>, with
  the captures \<open>c\<close> made so far: the result is the captures and the rest of the input
  behind the first match in the order of the choices, or \<open>None\<close>.\<close>

text \<open>\<^verbatim>\<open>s.match(re)\<close> without the flag \<^verbatim>\<open>g\<close>: the first match from the leftmost
  position that has one; the result is the captures.\<close>

fun search :: "rx list \<Rightarrow> string \<Rightarrow> captures option" where
  "search rs [] = map_option fst (matchHere rs [] [])"
| "search rs (x # xs) =
     (case matchHere rs (x # xs) [] of Some (c, r) \<Rightarrow> Some c | None \<Rightarrow> search rs xs)"

text \<open>A capture that took part in the match, and one that did not (\<^verbatim>\<open>undefined\<close>).\<close>

definition grp :: "captures \<Rightarrow> nat \<Rightarrow> string option" where
  "grp c n = map_of c n"

definition grpText :: "captures \<Rightarrow> nat \<Rightarrow> string" where
  "grpText c n = (case map_of c n of Some t \<Rightarrow> t | None \<Rightarrow> [])"

text \<open>The pattern of a literal text.\<close>

definition lit :: "string \<Rightarrow> rx list" where
  "lit s = map Chr s"

text \<open>The replacement text of \<^verbatim>\<open>replace\<close>: literal text and references \<^verbatim>\<open>$n\<close>.\<close>

datatype tpl = Txt string | Ref nat

fun subst :: "tpl list \<Rightarrow> captures \<Rightarrow> string" where
  "subst [] c = []"
| "subst (Txt t # ts) c = t @ subst ts c"
| "subst (Ref n # ts) c = grpText c n @ subst ts c"

text \<open>\<^verbatim>\<open>s.replace(re, t)\<close> with the flag \<^verbatim>\<open>g\<close>: the matches are replaced from left to
  right, each search starting where the last match ended. The patterns that the source
  replaces match at least one character; the test on the lengths says so and makes the
  recursion end.\<close>

function replaceAll :: "rx list \<Rightarrow> tpl list \<Rightarrow> string \<Rightarrow> string" where
  "replaceAll rs t [] = []"
| "replaceAll rs t (x # xs) =
     (case matchHere rs (x # xs) [] of
        Some (c, r) \<Rightarrow>
          if length r < length (x # xs) then subst t c @ replaceAll rs t r
          else x # replaceAll rs t xs
      | None \<Rightarrow> x # replaceAll rs t xs)"
  by pat_completeness auto
termination
  by (relation "measure (\<lambda>(rs, t, s). length s)") auto

text \<open>Without the flag \<^verbatim>\<open>g\<close> only the first match is replaced.\<close>

fun replaceFirst :: "rx list \<Rightarrow> tpl list \<Rightarrow> string \<Rightarrow> string" where
  "replaceFirst rs t [] = (case matchHere rs [] [] of Some (c, r) \<Rightarrow> subst t c | None \<Rightarrow> [])"
| "replaceFirst rs t (x # xs) =
     (case matchHere rs (x # xs) [] of
        Some (c, r) \<Rightarrow> subst t c @ r
      | None \<Rightarrow> x # replaceFirst rs t xs)"

text \<open>\<^verbatim>\<open>s.split(re)\<close>: the pieces between the matches and, behind each piece, the
  captures \<open>gs\<close> of the match that ended it. \<open>acc\<close> holds the piece read so far, in
  reverse. Both patterns that the source splits on match at least one character.\<close>

function splitRx :: "rx list \<Rightarrow> nat list \<Rightarrow> string \<Rightarrow> string \<Rightarrow> string list" where
  "splitRx rs gs acc [] = [rev acc]"
| "splitRx rs gs acc (x # xs) =
     (case matchHere rs (x # xs) [] of
        Some (c, r) \<Rightarrow>
          if length r < length (x # xs) then rev acc # map (grpText c) gs @ splitRx rs gs [] r
          else splitRx rs gs (x # acc) xs
      | None \<Rightarrow> splitRx rs gs (x # acc) xs)"
  by pat_completeness auto
termination
  by (relation "measure (\<lambda>(rs, gs, acc, s). length s)") auto

section \<open>Values, rows and the runtime\<close>

text \<open>
  A cell of a row holds a string, a number or \<^verbatim>\<open>undefined\<close>. The numbers of JavaScript
  are IEEE doubles; the engine only converts text to them, tests them for NaN and compares
  them, so the type of numbers \<open>'n\<close> and these operations are parameters of the model,
  together with the other things the engine takes from its runtime: \<^verbatim>\<open>eval\<close> on an
  arithmetic text (a number, or a thrown error with its message), the clock, and the
  message of the TypeError raised by a method call on \<^verbatim>\<open>undefined\<close>.
\<close>

datatype 'n jsval = Str string | Num 'n | Undefined

record 'n jsrt =
  toNumber :: "string \<Rightarrow> 'n"
  isNaN :: "'n \<Rightarrow> bool"
  numEq :: "'n \<Rightarrow> 'n \<Rightarrow> bool"
  numLess :: "'n \<Rightarrow> 'n \<Rightarrow> bool"
  evalArith :: "string \<Rightarrow> string + 'n"
  isoNow :: string
  elapsed :: 'n
  zero :: 'n
  undefinedReplaceMessage :: string

text \<open>
  A row is a \<^verbatim>\<open>Record<string, unknown>\<close>, a plain object: a dictionary from keys to
  cells, kept as an association list in the order in which the keys were first written.
  Reading a key that the row does not have gives \<^verbatim>\<open>undefined\<close>; reading one of the
  names that every object inherits (\<^verbatim>\<open>toString\<close>, \<^verbatim>\<open>constructor\<close> and the like) is
  outside the model. An assignment \<^verbatim>\<open>row[k] = v\<close> writes the key \<open>k\<close>, with one
  exception: \<^verbatim>\<open>__proto__\<close> is an accessor of every object, and an assignment to it
  makes no key. (It sets the prototype when \<open>v\<close> is an object; the engine assigns strings,
  numbers and \<^verbatim>\<open>undefined\<close>, and in a projection the prototype that it has just read.)
\<close>

type_synonym 'n row = "(string \<times> 'n jsval) list"

definition rowGet :: "'n row \<Rightarrow> string \<Rightarrow> 'n jsval" where
  "rowGet row k = (case map_of row k of Some v \<Rightarrow> v | None \<Rightarrow> Undefined)"

definition rowSet :: "'n row \<Rightarrow> string \<Rightarrow> 'n jsval \<Rightarrow> 'n row" where
  "rowSet row k v = (if k = ''__proto__'' then row else AList.update k v row)"

text \<open>The comparisons of a cell with a text, as \<^verbatim>\<open>==\<close>, \<^verbatim>\<open><\<close>, \<^verbatim>\<open>>\<close>, \<^verbatim>\<open><=\<close> and
  \<^verbatim>\<open>>=\<close> make them: two strings are compared as strings, a number is compared with the
  number that the text converts to, and \<^verbatim>\<open>undefined\<close> equals no string and converts to
  NaN, which is in no order with anything.\<close>

fun looseEq :: "'n jsrt \<Rightarrow> 'n jsval \<Rightarrow> string \<Rightarrow> bool" where
  "looseEq js (Str t) s = (t = s)"
| "looseEq js (Num n) s = numEq js n (toNumber js s)"
| "looseEq js Undefined s = False"

fun lessThan_js :: "'n jsrt \<Rightarrow> 'n jsval \<Rightarrow> string \<Rightarrow> bool" where
  "lessThan_js js (Str t) s = strLess t s"
| "lessThan_js js (Num n) s = numLess js n (toNumber js s)"
| "lessThan_js js Undefined s = False"

fun greaterThan_js :: "'n jsrt \<Rightarrow> 'n jsval \<Rightarrow> string \<Rightarrow> bool" where
  "greaterThan_js js (Str t) s = strLess s t"
| "greaterThan_js js (Num n) s = numLess js (toNumber js s) n"
| "greaterThan_js js Undefined s = False"

fun lessEq_js :: "'n jsrt \<Rightarrow> 'n jsval \<Rightarrow> string \<Rightarrow> bool" where
  "lessEq_js js (Str t) s = (\<not> strLess s t)"
| "lessEq_js js (Num n) s =
     (\<not> isNaN js n \<and> \<not> isNaN js (toNumber js s) \<and> \<not> numLess js (toNumber js s) n)"
| "lessEq_js js Undefined s = False"

fun greaterEq_js :: "'n jsrt \<Rightarrow> 'n jsval \<Rightarrow> string \<Rightarrow> bool" where
  "greaterEq_js js (Str t) s = (\<not> strLess t s)"
| "greaterEq_js js (Num n) s =
     (\<not> isNaN js n \<and> \<not> isNaN js (toNumber js s) \<and> \<not> numLess js n (toNumber js s))"
| "greaterEq_js js Undefined s = False"

section \<open>The data model\<close>

text \<open>The interfaces of \<^verbatim>\<open>src/types/oracle.ts\<close>. Of the optional fields of a column the
  engine reads only \<^verbatim>\<open>length\<close>. The catalog is the \<^verbatim>\<open>Map\<close> from upper-cased table
  names to tables, in insertion order.\<close>

record OracleColumn =
  c_name :: string
  c_dataType :: string
  c_nullable :: bool
  c_length :: "nat option"

datatype IndexType = BTREE | HASH | BITMAP

record OracleIndex =
  i_name :: string
  i_columns :: "string list"
  i_unique :: bool
  i_type :: IndexType

datatype ConstraintType = PRIMARY_KEY | FOREIGN_KEY | UNIQUE | CHECK | NOT_NULL

record OracleConstraint =
  k_name :: string
  k_type :: ConstraintType
  k_columns :: "string list"
  k_referencedTable :: "string option"
  k_referencedColumns :: "string list option"

record 'n OracleTable =
  t_name :: string
  t_columns :: "OracleColumn list"
  t_data :: "'n row list"
  t_indexes :: "OracleIndex list"
  t_constraints :: "OracleConstraint list"
  t_created :: string

record ExecutionPlan =
  operation :: string
  object :: string
  cost :: nat
  cardinality :: nat
  bytes :: nat
  time :: string

record 'n QueryResult =
  success :: bool
  data :: "'n row list option"
  columns :: "string list option"
  rowCount :: "nat option"
  executionTime :: "'n option"
  executionPlan :: "ExecutionPlan option"
  message :: "string option"
  error :: "string option"

type_synonym 'n catalog = "(string \<times> 'n OracleTable) list"

definition failure :: "string \<Rightarrow> 'n QueryResult" where
  "failure e = \<lparr>success = False, data = None, columns = None, rowCount = None,
     executionTime = None, executionPlan = None, message = None, error = Some e\<rparr>"

definition done_msg :: "string \<Rightarrow> nat \<Rightarrow> 'n QueryResult" where
  "done_msg m n = \<lparr>success = True, data = None, columns = None, rowCount = Some n,
     executionTime = None, executionPlan = None, message = Some m, error = None\<rparr>"

definition done_data :: "'n row list \<Rightarrow> string list \<Rightarrow> ExecutionPlan option \<Rightarrow> 'n QueryResult" where
  "done_data d cs p = \<lparr>success = True, data = Some d, columns = Some cs,
     rowCount = Some (length d), executionTime = None, executionPlan = p, message = None,
     error = None\<rparr>"

text \<open>A string is truthy when it is there and not empty.\<close>

fun truthy :: "string option \<Rightarrow> bool" where
  "truthy None = False"
| "truthy (Some s) = (s \<noteq> [])"

section \<open>The engine\<close>

subsection \<open>normalizeOracleSQL\<close>

text \<open>Nine global replacements, applied one after the other to the whole text.\<close>

definition normalizeOracleSQL :: "string \<Rightarrow> string" where
  "normalizeOracleSQL sql =
     (let s1 = replaceAll (lit ''VARCHAR2('' @ [Grp 1 [Plus Digit], Chr CHR '')''])
                 [Txt ''VARCHAR('', Ref 1, Txt '')''] sql;
          s2 = replaceAll (lit ''NUMBER('' @ [Grp 1 [Plus Digit], Chr CHR '','', Grp 2 [Plus Digit],
                 Chr CHR '')'']) [Txt ''DECIMAL('', Ref 1, Txt '','', Ref 2, Txt '')''] s1;
          s3 = replaceAll (lit ''NUMBER('' @ [Grp 1 [Plus Digit], Chr CHR '')'']) [Txt ''INTEGER''] s2;
          s4 = replaceAll (lit ''NUMBER'') [Txt ''DECIMAL(38,10)''] s3;
          s5 = replaceAll (lit ''DATE'') [Txt ''TIMESTAMP''] s4;
          s6 = replaceAll (lit ''SYSDATE'') [Txt ''CURRENT_TIMESTAMP''] s5;
          s7 = replaceAll (lit ''SYSTIMESTAMP'') [Txt ''CURRENT_TIMESTAMP''] s6;
          s8 = replaceAll (lit ''NVL('') [Txt ''COALESCE(''] s7
      in replaceAll (lit ''||'') [Txt ''+''] s8)"

subsection \<open>evaluateWhereClause\<close>

text \<open>\<^verbatim>\<open>/\s+(AND|OR)\s+/i\<close> and \<^verbatim>\<open>/(\w+)\s*(=|!=|<>|<|>|<=|>=)\s*(.+)/\<close>.\<close>

definition whereSplitRx :: "rx list" where
  "whereSplitRx = [Plus Space, Grp 1 [Alt [lit ''AND'', lit ''OR'']], Plus Space]"

definition conditionRx :: "rx list" where
  "conditionRx =
     [Grp 1 [Plus Word], Star Space,
      Grp 2 [Alt [lit ''='', lit ''!='', lit ''<>'', lit ''<'', lit ''>'', lit ''<='', lit ''>='']],
      Star Space, Grp 3 [Plus Dot]]"

text \<open>The \<^verbatim>\<open>switch\<close> on the operator; \<open>result\<close> stays \<^verbatim>\<open>false\<close> when no case applies.\<close>

definition compare :: "'n jsrt \<Rightarrow> string \<Rightarrow> 'n jsval \<Rightarrow> string \<Rightarrow> bool" where
  "compare js operator columnValue compareValue =
     (if operator = ''='' then looseEq js columnValue compareValue
      else if operator = ''!='' \<or> operator = ''<>'' then \<not> looseEq js columnValue compareValue
      else if operator = ''<'' then lessThan_js js columnValue compareValue
      else if operator = ''>'' then greaterThan_js js columnValue compareValue
      else if operator = ''<='' then lessEq_js js columnValue compareValue
      else if operator = ''>='' then greaterEq_js js columnValue compareValue
      else False)"

text \<open>The body of the loop for one element of \<open>conditions\<close>: \<open>False\<close> when the loop
  returns \<^verbatim>\<open>false\<close> there, \<open>True\<close> when it goes on, which it also does when the element
  does not match the pattern.\<close>

definition checkCondition :: "'n jsrt \<Rightarrow> 'n row \<Rightarrow> string \<Rightarrow> bool" where
  "checkCondition js row cond =
     (case search conditionRx (jsTrim cond) of
        None \<Rightarrow> True
      | Some c \<Rightarrow>
          compare js (grpText c 2) (rowGet row (toUpperCase (grpText c 1)))
            (stripQuotes (grpText c 3)))"

text \<open>The loop \<^verbatim>\<open>for (let i = 0; i < conditions.length; i += 2)\<close>.\<close>

fun whereLoop :: "'n jsrt \<Rightarrow> 'n row \<Rightarrow> string list \<Rightarrow> bool" where
  "whereLoop js row [] = True"
| "whereLoop js row [cond] = checkCondition js row cond"
| "whereLoop js row (cond # sep # rest) =
     (if \<not> checkCondition js row cond then False else whereLoop js row rest)"

definition evaluateWhereClause :: "'n jsrt \<Rightarrow> 'n row \<Rightarrow> string \<Rightarrow> bool" where
  "evaluateWhereClause js row whereClause =
     whereLoop js row (splitRx whereSplitRx [1] [] whereClause)"

subsection \<open>applySetClause\<close>

text \<open>An assignment without \<^verbatim>\<open>=\<close> leaves \<open>value\<close> \<^verbatim>\<open>undefined\<close>, and
  \<^verbatim>\<open>value.replace\<close> throws; the assignments made before stay in the row. The result is
  the message of the error thrown, if one was, and the row.\<close>

fun applyAssignments :: "'n jsrt \<Rightarrow> 'n row \<Rightarrow> string list \<Rightarrow> string option \<times> 'n row" where
  "applyAssignments js row [] = (None, row)"
| "applyAssignments js row (assignment # rest) =
     (case map jsTrim (splitChar CHR ''='' assignment) of
        column # value # others \<Rightarrow>
          applyAssignments js (rowSet row (toUpperCase column) (Str (stripQuotes value))) rest
      | _ \<Rightarrow> (Some (undefinedReplaceMessage js), row))"

definition applySetClause :: "'n jsrt \<Rightarrow> 'n row \<Rightarrow> string \<Rightarrow> string option \<times> 'n row" where
  "applySetClause js row setClause = applyAssignments js row (splitChar CHR '','' setClause)"

subsection \<open>parseValues and parseColumnDefinitions\<close>

definition parseValue :: "'n jsrt \<Rightarrow> string \<Rightarrow> 'n jsval" where
  "parseValue js v =
     (let trimmed = jsTrim v in
      if startsWith trimmed [CHR 0x27] \<and> endsWith trimmed [CHR 0x27] then Str (butlast (tl trimmed))
      else if \<not> isNaN js (toNumber js trimmed) then Num (toNumber js trimmed)
      else Str trimmed)"

definition parseValues :: "'n jsrt \<Rightarrow> string \<Rightarrow> 'n jsval list" where
  "parseValues js valueList = map (parseValue js) (splitChar CHR '','' valueList)"

definition parseColumnDefinition :: "string \<Rightarrow> OracleColumn" where
  "parseColumnDefinition def =
     (let parts = splitRx [Plus Space] [] [] (jsTrim def);
          name = (case parts of [] \<Rightarrow> [] | p0 # ps \<Rightarrow> p0);
          dataType = (case parts of p0 # p1 # ps \<Rightarrow> if p1 = [] then ''VARCHAR2(255)'' else p1
                      | _ \<Rightarrow> ''VARCHAR2(255)'');
          nullable = (\<not> includesStr (toUpperCase def) ''NOT NULL'')
      in \<lparr>c_name = toUpperCase name, c_dataType = dataType, c_nullable = nullable,
          c_length = None\<rparr>)"

definition parseColumnDefinitions :: "string \<Rightarrow> OracleColumn list" where
  "parseColumnDefinitions columnDefs = map parseColumnDefinition (splitChar CHR '','' columnDefs)"

subsection \<open>generateExecutionPlan\<close>

text \<open>\<open>rows\<close> is the length of an array.\<close>

definition generateExecutionPlan :: "string \<Rightarrow> string \<Rightarrow> nat \<Rightarrow> ExecutionPlan" where
  "generateExecutionPlan operation_label object_name rows =
     \<lparr>operation = toUpperCase operation_label @ '' STATEMENT'',
      object = toUpperCase object_name,
      cost = max 1 (rows div 100),
      cardinality = rows,
      bytes = rows * 100,
      time = ''00:00:01''\<rparr>"

subsection \<open>The executors\<close>

text \<open>
  An executor reads and changes \<^verbatim>\<open>this.tables\<close>; here it takes the catalog and returns
  its result with the catalog it leaves. \<open>executeUpdate\<close> and \<open>executeDualQuery\<close> can
  throw: their result is the message of the error (\<open>Inl\<close>) or the result returned.
  The rows that a \<^verbatim>\<open>SELECT *\<close> returns are the row objects of the table; the engine
  does not write to a row that it has returned, and the rows are values here.
\<close>

definition selectRx :: "rx list" where
  "selectRx = lit ''SELECT'' @ [Plus Space, Grp 1 [Lazy Dot], Plus Space] @ lit ''FROM'' @
     [Plus Space, Grp 2 [Plus Word],
      Opt ([Plus Space] @ lit ''WHERE'' @ [Plus Space, Grp 3 [Star Dot]])]"

definition projectRow :: "string list \<Rightarrow> 'n row \<Rightarrow> 'n row" where
  "projectRow resultColumns row =
     foldl (\<lambda>newRow col. rowSet newRow col (rowGet row col)) [] resultColumns"

definition executeSelect :: "'n jsrt \<Rightarrow> string \<Rightarrow> 'n catalog \<Rightarrow> 'n QueryResult \<times> 'n catalog" where
  "executeSelect js sql tables =
     (case search selectRx sql of
        None \<Rightarrow> (failure ''ORA-00936: missing expression'', tables)
      | Some m \<Rightarrow>
          (let cols = grpText m 1; tableName = grpText m 2; whereClause = grp m 3 in
           case map_of tables (toUpperCase tableName) of
             None \<Rightarrow>
               (failure (''ORA-00942: table or view does not exist: '' @ tableName), tables)
           | Some table \<Rightarrow>
               (let rows = (case whereClause of
                              None \<Rightarrow> t_data table
                            | Some w \<Rightarrow>
                                if w \<noteq> [] then filter (\<lambda>row. evaluateWhereClause js row w) (t_data table)
                                else t_data table);
                    plan = generateExecutionPlan ''SELECT'' tableName (length rows)
                in if jsTrim cols = ''*''
                   then (done_data rows (map c_name (t_columns table)) (Some plan), tables)
                   else (let resultColumns = map jsTrim (splitChar CHR '','' cols)
                         in (done_data (map (projectRow resultColumns) rows) resultColumns (Some plan),
                             tables)))))"

definition createTableRx :: "rx list" where
  "createTableRx = lit ''CREATE'' @ [Plus Space] @ lit ''TABLE'' @
     [Plus Space, Grp 1 [Plus Word], Star Space, Chr CHR ''('', Grp 2 [Star Dot], Chr CHR '')'']"

definition executeCreateTable :: "'n jsrt \<Rightarrow> string \<Rightarrow> 'n catalog \<Rightarrow> 'n QueryResult \<times> 'n catalog" where
  "executeCreateTable js sql tables =
     (case search createTableRx sql of
        None \<Rightarrow> (failure ''ORA-00907: missing right parenthesis'', tables)
      | Some m \<Rightarrow>
          (let tableName = grpText m 1; columnDefs = grpText m 2;
               tableNameUpper = toUpperCase tableName in
           if map_of tables tableNameUpper \<noteq> None
           then (failure (''ORA-00955: name is already used by an existing object: '' @ tableName),
                 tables)
           else (let table = \<lparr>t_name = tableNameUpper,
                               t_columns = parseColumnDefinitions columnDefs,
                               t_data = [], t_indexes = [], t_constraints = [],
                               t_created = isoNow js\<rparr>
                 in (done_msg (''Table '' @ tableName @ '' created.'') 0,
                     AList.update tableNameUpper table tables))))"

definition insertRx :: "rx list" where
  "insertRx = lit ''INSERT'' @ [Plus Space] @ lit ''INTO'' @
     [Plus Space, Grp 1 [Plus Word], Star Space,
      Opt [Chr CHR ''('', Grp 2 [Lazy Dot], Chr CHR '')''], Star Space] @ lit ''VALUES'' @
     [Star Space, Chr CHR ''('', Grp 3 [Star Dot], Chr CHR '')'']"

text \<open>\<^verbatim>\<open>values[index]\<close> is \<^verbatim>\<open>undefined\<close> beyond the end of the array.\<close>

definition valueAt :: "'n jsval list \<Rightarrow> nat \<Rightarrow> 'n jsval" where
  "valueAt vs i = (if i < length vs then vs ! i else Undefined)"

fun assignColumns :: "nat \<Rightarrow> 'n row \<Rightarrow> string list \<Rightarrow> 'n jsval list \<Rightarrow> 'n row" where
  "assignColumns i newRow [] vs = newRow"
| "assignColumns i newRow (col # cols) vs =
     assignColumns (Suc i) (rowSet newRow col (valueAt vs i)) cols vs"

definition executeInsert :: "'n jsrt \<Rightarrow> string \<Rightarrow> 'n catalog \<Rightarrow> 'n QueryResult \<times> 'n catalog" where
  "executeInsert js sql tables =
     (case search insertRx sql of
        None \<Rightarrow> (failure ''ORA-00936: missing expression'', tables)
      | Some m \<Rightarrow>
          (let tableName = grpText m 1; columnList = grp m 2; valueList = grpText m 3 in
           case map_of tables (toUpperCase tableName) of
             None \<Rightarrow>
               (failure (''ORA-00942: table or view does not exist: '' @ tableName), tables)
           | Some table \<Rightarrow>
               (let vs = parseValues js valueList;
                    cols = (case columnList of
                              None \<Rightarrow> map c_name (t_columns table)
                            | Some l \<Rightarrow>
                                if l \<noteq> [] then map jsTrim (splitChar CHR '','' l)
                                else map c_name (t_columns table));
                    newRow = assignColumns 0 [] cols vs
                in (done_msg ''1 row created.'' 1,
                    AList.update (toUpperCase tableName)
                      (table\<lparr>t_data := t_data table @ [newRow]\<rparr>) tables))))"

definition updateRx :: "rx list" where
  "updateRx = lit ''UPDATE'' @ [Plus Space, Grp 1 [Plus Word], Plus Space] @ lit ''SET'' @
     [Plus Space, Grp 2 [Lazy Dot],
      Opt ([Plus Space] @ lit ''WHERE'' @ [Plus Space, Grp 3 [Star Dot]])]"

text \<open>The \<^verbatim>\<open>forEach\<close> over the rows of the table, with the counter \<open>updatedRows\<close>. An
  error thrown by \<open>applySetClause\<close> ends it; the rows changed so far stay changed.\<close>

fun updateRows ::
  "'n jsrt \<Rightarrow> string \<Rightarrow> string option \<Rightarrow> nat \<Rightarrow> 'n row list \<Rightarrow> string option \<times> 'n row list \<times> nat"
where
  "updateRows js setClause whereClause updatedRows [] = (None, [], updatedRows)"
| "updateRows js setClause whereClause updatedRows (row # rows) =
     (if (case whereClause of None \<Rightarrow> True
          | Some w \<Rightarrow> w = [] \<or> evaluateWhereClause js row w)
      then (case applySetClause js row setClause of
              (Some e, row') \<Rightarrow> (Some e, row' # rows, updatedRows)
            | (None, row') \<Rightarrow>
                (case updateRows js setClause whereClause (Suc updatedRows) rows of
                   (e, rows', n) \<Rightarrow> (e, row' # rows', n)))
      else (case updateRows js setClause whereClause updatedRows rows of
              (e, rows', n) \<Rightarrow> (e, row # rows', n)))"

definition executeUpdate ::
  "'n jsrt \<Rightarrow> string \<Rightarrow> 'n catalog \<Rightarrow> (string + 'n QueryResult) \<times> 'n catalog" where
  "executeUpdate js sql tables =
     (case search updateRx sql of
        None \<Rightarrow> (Inr (failure ''ORA-00936: missing expression''), tables)
      | Some m \<Rightarrow>
          (let tableName = grpText m 1; setClause = grpText m 2; whereClause = grp m 3 in
           case map_of tables (toUpperCase tableName) of
             None \<Rightarrow>
               (Inr (failure (''ORA-00942: table or view does not exist: '' @ tableName)), tables)
           | Some table \<Rightarrow>
               (case updateRows js setClause whereClause 0 (t_data table) of
                  (thrown, rows', updatedRows) \<Rightarrow>
                    (let tables' = AList.update (toUpperCase tableName)
                                     (table\<lparr>t_data := rows'\<rparr>) tables
                     in case thrown of
                          Some e \<Rightarrow> (Inl e, tables')
                        | None \<Rightarrow>
                            (Inr (done_msg (showNat updatedRows @ '' row''
                                    @ (if updatedRows \<noteq> 1 then ''s'' else []) @ '' updated.'')
                                    updatedRows),
                             tables')))))"

definition deleteRx :: "rx list" where
  "deleteRx = lit ''DELETE'' @ [Plus Space] @ lit ''FROM'' @
     [Plus Space, Grp 1 [Plus Word],
      Opt ([Plus Space] @ lit ''WHERE'' @ [Plus Space, Grp 2 [Star Dot]])]"

definition executeDelete :: "'n jsrt \<Rightarrow> string \<Rightarrow> 'n catalog \<Rightarrow> 'n QueryResult \<times> 'n catalog" where
  "executeDelete js sql tables =
     (case search deleteRx sql of
        None \<Rightarrow> (failure ''ORA-00936: missing expression'', tables)
      | Some m \<Rightarrow>
          (let tableName = grpText m 1; whereClause = grp m 2 in
           case map_of tables (toUpperCase tableName) of
             None \<Rightarrow>
               (failure (''ORA-00942: table or view does not exist: '' @ tableName), tables)
           | Some table \<Rightarrow>
               (let initialCount = length (t_data table);
                    kept = (case whereClause of
                              None \<Rightarrow> []
                            | Some w \<Rightarrow>
                                if w \<noteq> []
                                then filter (\<lambda>row. \<not> evaluateWhereClause js row w) (t_data table)
                                else []);
                    deletedRows = initialCount - length kept
                in (done_msg (showNat deletedRows @ '' row''
                      @ (if deletedRows \<noteq> 1 then ''s'' else []) @ '' deleted.'') deletedRows,
                    AList.update (toUpperCase tableName) (table\<lparr>t_data := kept\<rparr>) tables))))"

definition dropTableRx :: "rx list" where
  "dropTableRx = lit ''DROP'' @ [Plus Space] @ lit ''TABLE'' @ [Plus Space, Grp 1 [Plus Word]]"

definition executeDropTable :: "'n jsrt \<Rightarrow> string \<Rightarrow> 'n catalog \<Rightarrow> 'n QueryResult \<times> 'n catalog" where
  "executeDropTable js sql tables =
     (case search dropTableRx sql of
        None \<Rightarrow> (failure ''ORA-00942: table or view does not exist'', tables)
      | Some m \<Rightarrow>
          (let tableName = toUpperCase (grpText m 1) in
           if map_of tables tableName = None
           then (failure (''ORA-00942: table or view does not exist: '' @ tableName), tables)
           else (done_msg (''Table '' @ tableName @ '' dropped.'') 0,
                 AList.delete tableName tables)))"

definition createIndexRx :: "rx list" where
  "createIndexRx = lit ''CREATE'' @ [Plus Space, Opt (lit ''UNIQUE'' @ [Plus Space])] @
     lit ''INDEX'' @ [Plus Space, Grp 1 [Plus Word], Plus Space] @ lit ''ON'' @
     [Plus Space, Grp 2 [Plus Word], Star Space, Chr CHR ''('', Grp 3 [Lazy Dot], Chr CHR '')'']"

definition executeCreateIndex :: "'n jsrt \<Rightarrow> string \<Rightarrow> 'n catalog \<Rightarrow> 'n QueryResult \<times> 'n catalog" where
  "executeCreateIndex js sql tables =
     (case search createIndexRx sql of
        None \<Rightarrow> (failure ''ORA-00907: missing right parenthesis'', tables)
      | Some m \<Rightarrow>
          (let indexName = grpText m 1; tableName = grpText m 2; columnList = grpText m 3 in
           case map_of tables (toUpperCase tableName) of
             None \<Rightarrow>
               (failure (''ORA-00942: table or view does not exist: '' @ tableName), tables)
           | Some table \<Rightarrow>
               (let index = \<lparr>i_name = toUpperCase indexName,
                               i_columns = map jsTrim (splitChar CHR '','' columnList),
                               i_unique = includesStr (toUpperCase sql) ''UNIQUE'',
                               i_type = BTREE\<rparr>
                in (done_msg (''Index '' @ indexName @ '' created.'') 0,
                    AList.update (toUpperCase tableName)
                      (table\<lparr>t_indexes := t_indexes table @ [index]\<rparr>) tables))))"

definition describeRx :: "rx list" where
  "describeRx = lit ''DESC'' @ [Opt (lit ''RIBE''), Plus Space, Grp 1 [Plus Word]]"

definition describeRow :: "OracleColumn \<Rightarrow> 'n row" where
  "describeRow col =
     [(''Name'', Str (c_name col)),
      (''Null?'', Str (if c_nullable col then [] else ''NOT NULL'')),
      (''Type'', Str (c_dataType col @
         (case c_length col of
            None \<Rightarrow> []
          | Some l \<Rightarrow> if l \<noteq> 0 then ''('' @ showNat l @ '')'' else [])))]"

definition executeDescribe :: "'n jsrt \<Rightarrow> string \<Rightarrow> 'n catalog \<Rightarrow> 'n QueryResult \<times> 'n catalog" where
  "executeDescribe js sql tables =
     (case search describeRx sql of
        None \<Rightarrow> (failure ''ORA-00942: table or view does not exist'', tables)
      | Some m \<Rightarrow>
          (let tableName = toUpperCase (grpText m 1) in
           case map_of tables tableName of
             None \<Rightarrow>
               (failure (''ORA-00942: table or view does not exist: '' @ tableName), tables)
           | Some table \<Rightarrow>
               (done_data (map describeRow (t_columns table)) [''Name'', ''Null?'', ''Type''] None,
                tables)))"

definition dualRx :: "rx list" where
  "dualRx = lit ''SELECT'' @ [Plus Space, Grp 1 [Lazy Dot], Plus Space] @ lit ''FROM'' @
     [Plus Space] @ lit ''DUAL''"

text \<open>\<^verbatim>\<open>/^\d+\s*[+\-*/]\s*\d+$/\<close> begins with \<^verbatim>\<open>^\<close>: it is tried at the first position
  only.\<close>

definition arithRx :: "rx list" where
  "arithRx = [Plus Digit, Star Space, One (OneOf ''+-*/''), Star Space, Plus Digit, Eol]"

definition executeDualQuery ::
  "'n jsrt \<Rightarrow> string \<Rightarrow> 'n catalog \<Rightarrow> (string + 'n QueryResult) \<times> 'n catalog" where
  "executeDualQuery js sql tables =
     (case search dualRx sql of
        None \<Rightarrow> (Inr (failure ''ORA-00936: missing expression''), tables)
      | Some m \<Rightarrow>
          (let expression = jsTrim (grpText m 1);
               one = (\<lambda>v. Inr (done_data [[(expression, v)]] [expression] None))
           in if toUpperCase expression = ''SYSDATE''
              then (one (Str (case splitChar CHR ''T'' (isoNow js) of [] \<Rightarrow> [] | d # ds \<Rightarrow> d)), tables)
              else if toUpperCase expression = ''SYSTIMESTAMP'' then (one (Str (isoNow js)), tables)
              else if toUpperCase expression = ''USER'' then (one (Str ''ORACLE_SIM''), tables)
              else if matchHere arithRx expression [] \<noteq> None
              then (case evalArith js expression of
                      Inl e \<Rightarrow> (Inl e, tables)
                    | Inr n \<Rightarrow> (one (Num n), tables))
              else (one (Str (stripQuotes expression)), tables)))"

subsection \<open>parseSQL\<close>

text \<open>The statement is trimmed, loses one \<^verbatim>\<open>;\<close> at its end, is normalized and goes to
  the first executor whose test it passes. An error thrown inside becomes the result of
  the \<^verbatim>\<open>catch\<close> block; what the executor had changed in the catalog by then stays.\<close>

definition parseSQL :: "'n jsrt \<Rightarrow> string \<Rightarrow> 'n catalog \<Rightarrow> 'n QueryResult \<times> 'n catalog" where
  "parseSQL js sql tables =
     (let cleanSQL = replaceFirst [Chr CHR '';'', Eol] [] (jsTrim sql);
          normalizedSQL = normalizeOracleSQL cleanSQL;
          upper = toUpperCase normalizedSQL;
          ran =
            (if startsWith upper ''SELECT'' then apfst Inr (executeSelect js normalizedSQL tables)
             else if startsWith upper ''CREATE TABLE''
               then apfst Inr (executeCreateTable js normalizedSQL tables)
             else if startsWith upper ''INSERT'' then apfst Inr (executeInsert js normalizedSQL tables)
             else if startsWith upper ''UPDATE'' then executeUpdate js normalizedSQL tables
             else if startsWith upper ''DELETE'' then apfst Inr (executeDelete js normalizedSQL tables)
             else if startsWith upper ''DROP TABLE''
               then apfst Inr (executeDropTable js normalizedSQL tables)
             else if startsWith upper ''CREATE INDEX''
               then apfst Inr (executeCreateIndex js normalizedSQL tables)
             else if startsWith upper ''DESCRIBE'' \<or> startsWith upper ''DESC''
               then apfst Inr (executeDescribe js normalizedSQL tables)
             else if includesStr upper ''DUAL'' then executeDualQuery js normalizedSQL tables
             else (Inr (failure ''ORA-00900: invalid SQL statement''), tables))
      in case ran of
           (Inr result, tables') \<Rightarrow> (result\<lparr>executionTime := Some (elapsed js)\<rparr>, tables')
         | (Inl e, tables') \<Rightarrow>
             ((failure (''ORA-00907: '' @ e))\<lparr>executionTime := Some (zero js)\<rparr>, tables'))"

section \<open>Notions used to state the properties\<close>

text \<open>The array \<open>conditions\<close> of \<open>evaluateWhereClause\<close> alternates conditions and
  the keywords captured between them: the atomic conditions of a WHERE clause are its
  elements of even index.\<close>

fun evens :: "'a list \<Rightarrow> 'a list" where
  "evens [] = []"
| "evens [x] = [x]"
| "evens (x # y # xs) = x # evens xs"

definition atomicConditions :: "string \<Rightarrow> string list" where
  "atomicConditions whereClause = evens (splitRx whereSplitRx [1] [] whereClause)"







text \<open>
  The worked examples run the engine on a small runtime. Its numbers are the integers
  and NaN (\<open>None\<close>): a text of decimal digits, trimmed, converts to the integer it writes
  and every other text to NaN, which is how JavaScript reads these texts. None of the
  examples reaches \<^verbatim>\<open>eval\<close>, whose result is left as NaN here; the clock is fixed, and
  the message of the TypeError is the one of V8.
\<close>

definition digitValue :: "char \<Rightarrow> nat" where
  "digitValue c = length (takeWhile (\<lambda>d. d \<noteq> c) ''0123456789'')"

definition wholeNumber :: "string \<Rightarrow> int option" where
  "wholeNumber s =
     (let t = jsTrim s in
      if list_all isDigit t then Some (int (foldl (\<lambda>a c. 10 * a + digitValue c) 0 t))
      else None)"

definition wholeNumbers :: "(int option) jsrt" where
  "wholeNumbers =
     \<lparr>toNumber = wholeNumber,
      isNaN = (\<lambda>n. n = None),
      numEq = (\<lambda>a b. a \<noteq> None \<and> a = b),
      numLess = (\<lambda>a b. case (a, b) of (Some x, Some y) \<Rightarrow> x < y | _ \<Rightarrow> False),
      evalArith = (\<lambda>s. Inr None),
      isoNow = ''2025-01-15T10:30:00.000Z'',
      elapsed = Some 0,
      zero = Some 0,
      undefinedReplaceMessage = ''Cannot read properties of undefined (reading 'replace')''\<rparr>"

text \<open>The catalog after \<^verbatim>\<open>CREATE TABLE T (ID INT, NAME VARCHAR(50))\<close> and
  \<^verbatim>\<open>INSERT INTO T VALUES (1, 'A')\<close>.\<close>

definition tableT :: "(int option) OracleTable" where
  "tableT =
     \<lparr>t_name = ''T'',
      t_columns = [\<lparr>c_name = ''ID'', c_dataType = ''INT'', c_nullable = True, c_length = None\<rparr>,
                   \<lparr>c_name = ''NAME'', c_dataType = ''VARCHAR(50)'', c_nullable = True,
                    c_length = None\<rparr>],
      t_data = [[(''ID'', Num (Some 1)), (''NAME'', Str ''A'')]],
      t_indexes = [], t_constraints = [],
      t_created = ''2025-01-15T10:30:00.000Z''\<rparr>"

definition catalogT :: "(int option) catalog" where
  "catalogT = [(''T'', tableT)]"

section \<open>Properties\<close>

subsection \<open>Facts about the matcher\<close>














subsection \<open>Facts about the engine\<close>

lemma whereLoop_evens: "whereLoop js row xs = list_all (checkCondition js row) (evens xs)"
  by (induction xs rule: evens.induct) auto

lemma skipped: "search conditionRx (jsTrim cond) = None \<Longrightarrow> checkCondition js row cond"
  by (simp add: checkCondition_def)

lemma executeSelect_frame: "snd (executeSelect js sql tables) = tables"
  by (simp add: executeSelect_def Let_def split: option.splits)

lemma executeDescribe_frame: "snd (executeDescribe js sql tables) = tables"
  by (simp add: executeDescribe_def Let_def split: option.splits)

lemma startsWith_iff: "startsWith s p \<longleftrightarrow> (\<exists>r. s = p @ r)"
  by (induction s p rule: startsWith.induct) auto

text \<open>A text that begins with \<^verbatim>\<open>DESC\<close> passes none of the tests that \<open>parseSQL\<close> makes
  before the one for DESCRIBE, and one that begins with \<^verbatim>\<open>CREATE TABLE\<close> does not pass
  the test for SELECT.\<close>

lemma desc_excludes:
  assumes "startsWith u ''DESC''"
  shows "\<not> startsWith u ''SELECT''" "\<not> startsWith u ''CREATE TABLE''"
    "\<not> startsWith u ''INSERT''" "\<not> startsWith u ''UPDATE''" "\<not> startsWith u ''DELETE''"
    "\<not> startsWith u ''DROP TABLE''" "\<not> startsWith u ''CREATE INDEX''"
proof -
  from assms obtain r where "u = ''DESC'' @ r"
    by (auto simp: startsWith_iff)
  then show "\<not> startsWith u ''SELECT''" "\<not> startsWith u ''CREATE TABLE''"
    "\<not> startsWith u ''INSERT''" "\<not> startsWith u ''UPDATE''" "\<not> startsWith u ''DELETE''"
    "\<not> startsWith u ''DROP TABLE''" "\<not> startsWith u ''CREATE INDEX''"
    by simp_all
qed


lemma finish_Inr:
  "(case apfst Inr p of
      (Inr result, tables') \<Rightarrow> (f result, tables')
    | (Inl e, tables') \<Rightarrow> (g e, tables')) = (f (fst p), snd p)"
  by (cases p) simp

lemma parseSQL_select:
  assumes "startsWith (toUpperCase (normalizeOracleSQL
             (replaceFirst [Chr CHR '';'', Eol] [] (jsTrim sql)))) ''SELECT''"
  shows "parseSQL js sql tables =
     ((fst (executeSelect js (normalizeOracleSQL
              (replaceFirst [Chr CHR '';'', Eol] [] (jsTrim sql))) tables))
        \<lparr>executionTime := Some (elapsed js)\<rparr>,
      snd (executeSelect js (normalizeOracleSQL
              (replaceFirst [Chr CHR '';'', Eol] [] (jsTrim sql))) tables))"
  using assms unfolding parseSQL_def Let_def
  by (simp only: if_True finish_Inr)


lemma parseSQL_describe:
  assumes "startsWith (toUpperCase (normalizeOracleSQL
             (replaceFirst [Chr CHR '';'', Eol] [] (jsTrim sql)))) ''DESC''"
  shows "parseSQL js sql tables =
     ((fst (executeDescribe js (normalizeOracleSQL
              (replaceFirst [Chr CHR '';'', Eol] [] (jsTrim sql))) tables))
        \<lparr>executionTime := Some (elapsed js)\<rparr>,
      snd (executeDescribe js (normalizeOracleSQL
              (replaceFirst [Chr CHR '';'', Eol] [] (jsTrim sql))) tables))"
  using assms desc_excludes[OF assms] unfolding parseSQL_def Let_def
  by (simp only: if_True if_False finish_Inr simp_thms)



text \<open>The row that \<open>executeInsert\<close> builds.\<close>

lemma assign_other:
  "k \<notin> set cols \<Longrightarrow> map_of (assignColumns i r cols vs) k = map_of r k"
  by (induction cols arbitrary: i r) (auto simp: rowSet_def update_conv')

lemma assign_at:
  "j < length cols \<Longrightarrow> cols ! j \<notin> set (drop (Suc j) cols) \<Longrightarrow> ''__proto__'' \<notin> set cols \<Longrightarrow>
   map_of (assignColumns i r cols vs) (cols ! j) = Some (valueAt vs (i + j))"
proof (induction cols arbitrary: i r j)
  case Nil
  then show ?case by simp
next
  case (Cons c cs)
  show ?case
  proof (cases j)
    case 0
    with Cons.prems show ?thesis
      by (auto simp: assign_other rowSet_def update_conv')
  next
    case (Suc j')
    with Cons.prems Cons.IH[of j' "Suc i" "rowSet r c (valueAt vs i)"] show ?thesis
      by simp
  qed
qed

lemma assign_keys:
  "''__proto__'' \<notin> set cols \<Longrightarrow>
   fst ` set (assignColumns i r cols vs) = fst ` set r \<union> set cols"
  by (induction cols arbitrary: i r) (auto simp: rowSet_def dom_update)

text \<open>The normalizer on a text that begins with \<^verbatim>\<open>UPDATE\<close>, in any case: the
  \<^verbatim>\<open>DATE\<close> in the keyword is replaced, and the text begins with \<^verbatim>\<open>UPTIMESTAMP\<close>
  afterwards.\<close>

lemma upperChar_lits:
  "upperChar CHR ''V'' = CHR ''V''" "upperChar CHR ''N'' = CHR ''N''"
  "upperChar CHR ''D'' = CHR ''D''" "upperChar CHR ''A'' = CHR ''A''"
  "upperChar CHR ''T'' = CHR ''T''" "upperChar CHR ''E'' = CHR ''E''"
  "upperChar CHR ''S'' = CHR ''S''" "upperChar CHR ''Y'' = CHR ''Y''"
  "upperChar CHR ''I'' = CHR ''I''" "upperChar CHR ''M'' = CHR ''M''"
  "upperChar CHR ''P'' = CHR ''P''" "upperChar CHR ''U'' = CHR ''U''"
  "upperChar CHR ''|'' = CHR ''|''"
  by (simp_all add: upperChar_def)

lemma latin1Upper_Some:
  assumes "latin1Upper c = Some d"
  shows "digit7 d"
proof -
  from assms have "(c, d) \<in> set (zip
       [CHR 0xE0, CHR 0xE1, CHR 0xE2, CHR 0xE3, CHR 0xE4, CHR 0xE5, CHR 0xE6, CHR 0xE7,
        CHR 0xE8, CHR 0xE9, CHR 0xEA, CHR 0xEB, CHR 0xEC, CHR 0xED, CHR 0xEE, CHR 0xEF,
        CHR 0xF0, CHR 0xF1, CHR 0xF2, CHR 0xF3, CHR 0xF4, CHR 0xF5, CHR 0xF6,
        CHR 0xF8, CHR 0xF9, CHR 0xFA, CHR 0xFB, CHR 0xFC, CHR 0xFD, CHR 0xFE]
       [CHR 0xC0, CHR 0xC1, CHR 0xC2, CHR 0xC3, CHR 0xC4, CHR 0xC5, CHR 0xC6, CHR 0xC7,
        CHR 0xC8, CHR 0xC9, CHR 0xCA, CHR 0xCB, CHR 0xCC, CHR 0xCD, CHR 0xCE, CHR 0xCF,
        CHR 0xD0, CHR 0xD1, CHR 0xD2, CHR 0xD3, CHR 0xD4, CHR 0xD5, CHR 0xD6,
        CHR 0xD8, CHR 0xD9, CHR 0xDA, CHR 0xDB, CHR 0xDC, CHR 0xDD, CHR 0xDE])"
    unfolding latin1Upper_def by (rule map_of_SomeD)
  then have "d \<in> set
       [CHR 0xC0, CHR 0xC1, CHR 0xC2, CHR 0xC3, CHR 0xC4, CHR 0xC5, CHR 0xC6, CHR 0xC7,
        CHR 0xC8, CHR 0xC9, CHR 0xCA, CHR 0xCB, CHR 0xCC, CHR 0xCD, CHR 0xCE, CHR 0xCF,
        CHR 0xD0, CHR 0xD1, CHR 0xD2, CHR 0xD3, CHR 0xD4, CHR 0xD5, CHR 0xD6,
        CHR 0xD8, CHR 0xD9, CHR 0xDA, CHR 0xDB, CHR 0xDC, CHR 0xDD, CHR 0xDE]"
    by (rule set_zip_rightD)
  then show ?thesis
    by (simp, elim disjE) simp_all
qed

lemma toUpperCase_Cons: "toUpperCase (c # s) = upperText c @ toUpperCase s"
  by (simp add: toUpperCase_def)

lemma toUpperCase_append: "toUpperCase (a @ b) = toUpperCase a @ toUpperCase b"
  by (simp add: toUpperCase_def)

lemma upperText_ascii: "\<not> digit7 c \<Longrightarrow> upperText c = [upperChar c]"
  by (simp add: upperText_def)

text \<open>An upper-cased text begins with an ASCII character other than \<open>S\<close> only if the text
  begins with an ASCII character of that canonical form.\<close>

lemma startsWith_upper:
  assumes "startsWith (toUpperCase s) (l # ps)" and "\<not> digit7 l" and "l \<noteq> CHR ''S''"
  shows "\<exists>c r. s = c # r \<and> \<not> digit7 c \<and> upperChar c = l \<and> startsWith (toUpperCase r) ps"
proof (cases s)
  case Nil
  with assms show ?thesis by (simp add: toUpperCase_def)
next
  case (Cons c r)
  show ?thesis
  proof (cases "digit7 c")
    case False
    with assms Cons show ?thesis
      by (simp add: toUpperCase_Cons upperText_def)
  next
    case True
    show ?thesis
    proof (cases "c = CHR 0xDF")
      case yes: True
      with True assms Cons show ?thesis
        by (simp add: toUpperCase_Cons upperText_def)
    next
      case no: False
      show ?thesis
      proof (cases "latin1Upper c")
        case None
        with no True assms Cons show ?thesis
          by (auto simp: toUpperCase_Cons upperText_def)
      next
        case (Some d)
        from latin1Upper_Some[OF Some] assms(2) have "d \<noteq> l" by auto
        with no True Some assms Cons show ?thesis
          by (simp add: toUpperCase_Cons upperText_def)
      qed
    qed
  qed
qed

lemma update_prefix:
  assumes "startsWith (toUpperCase s) ''UPDATE''"
  shows "\<exists>u p d a t e r. s = u # p # d # a # t # e # r \<and> \<not> digit7 u \<and> \<not> digit7 p \<and>
     upperChar u = CHR ''U'' \<and> upperChar p = CHR ''P'' \<and> upperChar d = CHR ''D'' \<and>
     upperChar a = CHR ''A'' \<and> upperChar t = CHR ''T'' \<and> upperChar e = CHR ''E''"
proof -
  from startsWith_upper[OF assms] obtain u r1 where
    1: "s = u # r1" "\<not> digit7 u" "upperChar u = CHR ''U''" "startsWith (toUpperCase r1) ''PDATE''"
    by auto
  from startsWith_upper[OF 1(4)] obtain p r2 where
    2: "r1 = p # r2" "\<not> digit7 p" "upperChar p = CHR ''P''" "startsWith (toUpperCase r2) ''DATE''"
    by auto
  from startsWith_upper[OF 2(4)] obtain d r3 where
    3: "r2 = d # r3" "upperChar d = CHR ''D''" "startsWith (toUpperCase r3) ''ATE''" by auto
  from startsWith_upper[OF 3(3)] obtain a r4 where
    4: "r3 = a # r4" "upperChar a = CHR ''A''" "startsWith (toUpperCase r4) ''TE''" by auto
  from startsWith_upper[OF 4(3)] obtain t r5 where
    5: "r4 = t # r5" "upperChar t = CHR ''T''" "startsWith (toUpperCase r5) ''E''" by auto
  from startsWith_upper[OF 5(3)] obtain e r6 where
    6: "r5 = e # r6" "upperChar e = CHR ''E''" by auto
  from 1 2 3 4 5 6 show ?thesis by blast
qed

lemma normalize_update:
  assumes "startsWith (toUpperCase s) ''UPDATE''"
  shows "\<exists>u p r. normalizeOracleSQL s = u # p # ''TIMESTAMP'' @ r \<and> \<not> digit7 u \<and> \<not> digit7 p \<and>
           upperChar u = CHR ''U'' \<and> upperChar p = CHR ''P''"
proof -
  from update_prefix[OF assms] obtain u p d a t e r where
    s: "s = u # p # d # a # t # e # r" and
    c: "upperChar u = CHR ''U''" "upperChar p = CHR ''P''" "upperChar d = CHR ''D''"
       "upperChar a = CHR ''A''" "upperChar t = CHR ''T''" "upperChar e = CHR ''E''" and
    a: "\<not> digit7 u" "\<not> digit7 p"
    by blast
  have "\<exists>r'. normalizeOracleSQL s = u # p # ''TIMESTAMP'' @ r'"
    unfolding normalizeOracleSQL_def Let_def s
    by (simp add: c upperChar_lits lit_def)
  with c(1,2) a show ?thesis by blast
qed

lemma executeDualQuery_frame: "snd (executeDualQuery js q tables) = tables"
  by (simp add: executeDualQuery_def Let_def split: option.splits sum.splits)

lemma executeDualQuery_message:
  "fst (executeDualQuery js q tables) = Inr r \<Longrightarrow> message r = None"
  by (auto simp: executeDualQuery_def Let_def failure_def done_data_def
      split: option.splits sum.splits if_splits)

text \<open>The catalog of the examples is the one that the two statements build.\<close>

lemma catalogT_built:
  "snd (parseSQL wholeNumbers ''INSERT INTO T VALUES (1, 'A')''
     (snd (parseSQL wholeNumbers ''CREATE TABLE T (ID INT, NAME VARCHAR(50))'' []))) = catalogT"
  by code_simp










lemma startsWith_refl: "startsWith p p"
  by (induction p) auto









subsection \<open>The claims\<close>

text \<open>
  C1. The specification says that every statement
  \<^verbatim>\<open>UPDATE <table> SET <assignments> [WHERE <cond>]\<close> on an existing table succeeds and
  reports the number of rows updated, as in \<^verbatim>\<open>1 row updated.\<close> The code does not do
  so. \<open>normalizeOracleSQL\<close> replaces every \<^verbatim>\<open>DATE\<close>, also the one inside the keyword
  \<^verbatim>\<open>UPDATE\<close>, so the statement reaches the tests of \<open>parseSQL\<close> as
  \<^verbatim>\<open>UPTIMESTAMP ...\<close>, passes none of them and is answered with ORA-00900; the table is
  left as it was. The statement below runs \<^verbatim>\<open>UPDATE T SET NAME='B' WHERE ID=1\<close> on the
  catalog in which \<open>T\<close> holds the one row with \<open>ID = 1\<close>.
\<close>

theorem update_statement_rejected:
  "normalizeOracleSQL ''UPDATE T SET NAME='B' WHERE ID=1'' = ''UPTIMESTAMP T SET NAME='B' WHERE ID=1''
   \<and> parseSQL wholeNumbers ''UPDATE T SET NAME='B' WHERE ID=1'' catalogT =
       ((failure ''ORA-00900: invalid SQL statement'')\<lparr>executionTime := Some (Some 0)\<rparr>, catalogT)"
  by code_simp

text \<open>\<open>executeUpdate\<close> itself, given the statement, does not report a count either: the
  lazy group of its pattern is followed by an optional group only, so it captures the
  empty text as the SET clause and no WHERE clause, and \<open>applySetClause\<close> throws on the
  first row.\<close>

lemma executeUpdate_throws:
  "search updateRx ''UPDATE T SET NAME='B' WHERE ID=1'' = Some [(1, ''T''), (2, [])]
   \<and> executeUpdate wholeNumbers ''UPDATE T SET NAME='B' WHERE ID=1'' catalogT =
       (Inl (undefinedReplaceMessage wholeNumbers), catalogT)"
  by code_simp

text \<open>No UPDATE statement fares better. Whatever follows the keyword, the statement
  does not reach \<open>executeUpdate\<close>: the catalog stays as it is and the result carries no
  message.\<close>

lemma update_statement_never_updates:
  assumes "startsWith (toUpperCase (replaceFirst [Chr CHR '';'', Eol] [] (jsTrim sql))) ''UPDATE''"
  shows "snd (parseSQL js sql tables) = tables \<and> message (fst (parseSQL js sql tables)) = None"
proof -
  define N where "N = normalizeOracleSQL (replaceFirst [Chr CHR '';'', Eol] [] (jsTrim sql))"
  from normalize_update[OF assms] obtain u p r where
    N: "N = u # p # ''TIMESTAMP'' @ r" and c: "upperChar u = CHR ''U''" "upperChar p = CHR ''P''"
    and a: "\<not> digit7 u" "\<not> digit7 p"
    unfolding N_def by blast
  have up: "toUpperCase N = ''UPTIMESTAMP'' @ toUpperCase r"
    unfolding N by (simp add: toUpperCase_Cons toUpperCase_append upperText_ascii a c upperChar_lits)
  have run: "parseSQL js sql tables =
      (case (if includesStr (toUpperCase N) ''DUAL'' then executeDualQuery js N tables
             else (Inr (failure ''ORA-00900: invalid SQL statement''), tables)) of
         (Inr result, tables') \<Rightarrow> (result\<lparr>executionTime := Some (elapsed js)\<rparr>, tables')
       | (Inl e, tables') \<Rightarrow>
           ((failure (''ORA-00907: '' @ e))\<lparr>executionTime := Some (zero js)\<rparr>, tables'))"
    unfolding parseSQL_def Let_def N_def[symmetric] up
    by simp
  show ?thesis
  proof (cases "includesStr (toUpperCase N) ''DUAL''")
    case False
    then show ?thesis unfolding run by (simp add: failure_def)
  next
    case True
    obtain x t' where x: "executeDualQuery js N tables = (x, t')"
      by (cases "executeDualQuery js N tables") auto
    with executeDualQuery_frame[of js N tables] have t': "t' = tables" by simp
    show ?thesis
    proof (cases x)
      case (Inl e)
      with True x t' show ?thesis unfolding run by (simp add: failure_def)
    next
      case (Inr res)
      with x executeDualQuery_message[of js N tables res] have "message res = None" by simp
      with True x t' Inr show ?thesis unfolding run by simp
    qed
  qed
qed

text \<open>
  C2. The specification says that \<^verbatim>\<open>SELECT SYSDATE FROM DUAL\<close> succeeds with one row
  and one column, keyed \<^verbatim>\<open>SYSDATE\<close>, that holds the date of today. The code does not do
  so. \<open>normalizeOracleSQL\<close> turns the statement into
  \<^verbatim>\<open>SELECT CURRENT_TIMESTAMP FROM DUAL\<close>, and \<open>parseSQL\<close> gives every text that begins
  with \<^verbatim>\<open>SELECT\<close> to \<open>executeSelect\<close>, which looks for a table \<open>DUAL\<close> in the catalog;
  \<open>executeDualQuery\<close> is never reached by a SELECT. On the empty catalog the result is
  ORA-00942.
\<close>

theorem sysdate_from_dual_fails:
  "normalizeOracleSQL ''SELECT SYSDATE FROM DUAL'' = ''SELECT CURRENT_TIMESTAMP FROM DUAL''
   \<and> parseSQL wholeNumbers ''SELECT SYSDATE FROM DUAL'' [] =
       ((failure ''ORA-00942: table or view does not exist: DUAL'')
          \<lparr>executionTime := Some (Some 0)\<rparr>, [])"
  by code_simp

text \<open>In no catalog and with no runtime does the statement give a column keyed
  \<^verbatim>\<open>SYSDATE\<close>: where a table \<open>DUAL\<close> exists, the rows of that table are projected on
  a column \<^verbatim>\<open>CURRENT_TIMESTAMP\<close>.\<close>

lemma normalize_sysdate:
  "normalizeOracleSQL (replaceFirst [Chr CHR '';'', Eol] [] (jsTrim ''SELECT SYSDATE FROM DUAL''))
     = ''SELECT CURRENT_TIMESTAMP FROM DUAL''"
  by code_simp

lemma select_current_timestamp:
  "search selectRx ''SELECT CURRENT_TIMESTAMP FROM DUAL''
     = Some [(1, ''CURRENT_TIMESTAMP''), (2, ''DUAL'')]"
  "startsWith (toUpperCase ''SELECT CURRENT_TIMESTAMP FROM DUAL'') ''SELECT''"
  "jsTrim ''CURRENT_TIMESTAMP'' \<noteq> ''*''"
  "map jsTrim (splitChar CHR '','' ''CURRENT_TIMESTAMP'') = [''CURRENT_TIMESTAMP'']"
  by code_simp+

lemma executeSelect_current_timestamp:
  "columns (fst (executeSelect js ''SELECT CURRENT_TIMESTAMP FROM DUAL'' tables))
     \<noteq> Some [''SYSDATE'']"
  unfolding executeSelect_def select_current_timestamp(1)
  by (simp add: grpText_def grp_def select_current_timestamp(3,4) Let_def failure_def
      done_data_def split: option.splits)

lemma sysdate_never_keyed:
  "columns (fst (parseSQL js ''SELECT SYSDATE FROM DUAL'' tables)) \<noteq> Some [''SYSDATE'']"
proof -
  have "startsWith (toUpperCase (normalizeOracleSQL (replaceFirst [Chr CHR '';'', Eol] []
          (jsTrim ''SELECT SYSDATE FROM DUAL'')))) ''SELECT''"
    unfolding normalize_sysdate by (rule select_current_timestamp(2))
  from parseSQL_select[OF this, of js tables] show ?thesis
    unfolding normalize_sysdate using executeSelect_current_timestamp[of js tables] by simp
qed


text \<open>A comma inside a type is taken for the end of the column definition. The statement
  of the README declares two columns; its \<^verbatim>\<open>NUMBER\<close> becomes \<^verbatim>\<open>DECIMAL(38,10)\<close>, which
  the split at the commas cuts in two, and three columns are described.\<close>

lemma describe_readme_table:
  "data (fst (parseSQL wholeNumbers ''DESC employees''
     (snd (parseSQL wholeNumbers ''CREATE TABLE employees (id NUMBER, name VARCHAR2(100));'' []))))
   = Some [[(''Name'', Str ''ID''), (''Null?'', Str []), (''Type'', Str ''DECIMAL(38'')],
           [(''Name'', Str ''10)''), (''Null?'', Str []), (''Type'', Str ''VARCHAR2(255)'')],
           [(''Name'', Str ''NAME''), (''Null?'', Str []), (''Type'', Str ''VARCHAR(100)'')]]"
  by code_simp




text \<open>
  C4. A CREATE TABLE whose table name, in upper case, is the key of a table of the
  catalog fails: the result has \<open>success = false\<close> and the error ORA-00955 with the name
  as it was written, and the catalog that \<open>executeCreateTable\<close> leaves is the catalog it
  was given, with the existing table and every other table as they were. \<open>m\<close> is what the
  pattern of the executor captures from the statement.
\<close>

theorem createTable_duplicate_name:
  assumes "search createTableRx sql = Some m"
    and "map_of tables (toUpperCase (grpText m 1)) = Some existing"
  shows "success (fst (executeCreateTable js sql tables)) = False \<and>
     error (fst (executeCreateTable js sql tables)) =
       Some (''ORA-00955: name is already used by an existing object: '' @ grpText m 1) \<and>
     snd (executeCreateTable js sql tables) = tables"
  using assms by (simp add: executeCreateTable_def Let_def failure_def)

theorem createTable_duplicate_name_witness:
  "search createTableRx ''CREATE TABLE t (X INT)'' = Some [(1, ''t''), (2, ''X INT'')]
   \<and> map_of catalogT (toUpperCase ''t'') = Some tableT
   \<and> success (fst (executeCreateTable wholeNumbers ''CREATE TABLE t (X INT)'' catalogT)) = False
   \<and> error (fst (executeCreateTable wholeNumbers ''CREATE TABLE t (X INT)'' catalogT)) =
       Some ''ORA-00955: name is already used by an existing object: t''
   \<and> snd (executeCreateTable wholeNumbers ''CREATE TABLE t (X INT)'' catalogT) = catalogT"
proof -
  have h1: "search createTableRx ''CREATE TABLE t (X INT)'' = Some [(1, ''t''), (2, ''X INT'')]"
    by code_simp
  have h2: "map_of catalogT (toUpperCase (grpText [(1, ''t''), (2, ''X INT'')] 1)) = Some tableT"
    by code_simp
  have h3: "grpText [(1, ''t''), (2, ''X INT'')] 1 = ''t''"
    by code_simp
  from createTable_duplicate_name[OF h1 h2, of wholeNumbers] h1 h2 show ?thesis
    unfolding h3 by simp
qed

text \<open>
  C5. The evaluator is to be true of a row exactly when every atomic comparison of the
  WHERE clause holds on it. It is not: on the row with \<open>ID = 1\<close> the comparison
  \<^verbatim>\<open>ID <= 1\<close> holds, and \<open>evaluateWhereClause\<close> is false of it. The pattern of a condition
  lists its operators in the order \<^verbatim>\<open>= != <> < > <= >=\<close>, so it reads \<^verbatim>\<open><=\<close> as the
  operator \<^verbatim>\<open><\<close> with the value \<^verbatim>\<open>= 1\<close>, which is no number; the cases \<^verbatim>\<open><=\<close> and
  \<^verbatim>\<open>>=\<close> of the comparison are never reached. A SELECT with this WHERE clause returns no
  row of the table that holds the row.
\<close>

theorem where_less_or_equal_misread:
  "search conditionRx ''ID <= 1'' = Some [(1, ''ID''), (2, ''<''), (3, ''= 1'')]
   \<and> \<not> evaluateWhereClause wholeNumbers [(''ID'', Num (Some 1)), (''NAME'', Str ''A'')] ''ID <= 1''
   \<and> evaluateWhereClause wholeNumbers [(''ID'', Num (Some 1)), (''NAME'', Str ''A'')] ''ID = 1''
   \<and> \<not> evaluateWhereClause wholeNumbers [(''ID'', Num (Some 1)), (''NAME'', Str ''A'')] ''ID >= 1''
   \<and> success (fst (parseSQL wholeNumbers ''SELECT * FROM T WHERE ID <= 1'' catalogT))
   \<and> data (fst (parseSQL wholeNumbers ''SELECT * FROM T WHERE ID <= 1'' catalogT)) = Some []
   \<and> data (fst (parseSQL wholeNumbers ''SELECT * FROM T WHERE ID = 1'' catalogT))
       = Some [[(''ID'', Num (Some 1)), (''NAME'', Str ''A'')]]"
  by code_simp

text \<open>The clause is split at every \<^verbatim>\<open>AND\<close> and \<^verbatim>\<open>OR\<close> between white space, also inside a
  string literal: the comparison of \<open>NAME\<close> with \<^verbatim>\<open>'A AND B'\<close> becomes a comparison with
  \<^verbatim>\<open>A\<close> and a second piece that is skipped.\<close>

lemma where_literal_split:
  "atomicConditions (''NAME = 'A AND B'' @ [CHR 0x27]) = [''NAME = 'A'', ''B'' @ [CHR 0x27]]
   \<and> \<not> evaluateWhereClause wholeNumbers [(''NAME'', Str ''A AND B'')]
         (''NAME = 'A AND B'' @ [CHR 0x27])
   \<and> evaluateWhereClause wholeNumbers [(''NAME'', Str ''A'')]
         (''NAME = 'A AND B'' @ [CHR 0x27])"
  by code_simp

text \<open>What does hold of the evaluator: it is the conjunction of its own test of one
  condition, \<open>checkCondition\<close>, over the atomic conditions, and the keywords between them
  are never read.\<close>

lemma whereLoop_conjunction:
  "(evaluateWhereClause js row w \<longleftrightarrow>
      (\<forall>c \<in> set (atomicConditions w). checkCondition js row c)) \<and>
   (\<forall>conds. evens conds = atomicConditions w \<longrightarrow>
      whereLoop js row conds = evaluateWhereClause js row w)"
  by (simp add: evaluateWhereClause_def atomicConditions_def whereLoop_evens list_all_iff)

text \<open>
  C6, as stated: when an INSERT names more columns than it gives values, the unmatched
  columns are absent from the new row. This fails: the loop assigns to every column of
  the list, so an unmatched column is a key of the new row and holds \<^verbatim>\<open>undefined\<close>.
  After \<^verbatim>\<open>INSERT INTO T (a,b,c) VALUES (1, 'A')\<close> the new row has the three keys \<open>a\<close>,
  \<open>b\<close> and \<open>c\<close>.
\<close>

theorem insert_unmatched_column_present:
  "success (fst (parseSQL wholeNumbers ''INSERT INTO T (a,b,c) VALUES (1, 'A')'' catalogT))
   \<and> snd (parseSQL wholeNumbers ''INSERT INTO T (a,b,c) VALUES (1, 'A')'' catalogT) =
       [(''T'', tableT\<lparr>t_data := [[(''ID'', Num (Some 1)), (''NAME'', Str ''A'')],
                                   [(''a'', Num (Some 1)), (''b'', Str ''A''), (''c'', Undefined)]]\<rparr>)]"
  by code_simp

text \<open>A column list that names \<^verbatim>\<open>__proto__\<close> is not assigned positionally: the assignment
  to this name stores nothing, and the value at its position is in no cell of the new
  row.\<close>

lemma insert_proto_column:
  "success (fst (parseSQL wholeNumbers ''INSERT INTO T (__proto__, b) VALUES (1, 2)'' catalogT))
   \<and> snd (parseSQL wholeNumbers ''INSERT INTO T (__proto__, b) VALUES (1, 2)'' catalogT) =
       [(''T'', tableT\<lparr>t_data := [[(''ID'', Num (Some 1)), (''NAME'', Str ''A'')],
                                   [(''b'', Num (Some 2))]]\<rparr>)]"
  by code_simp

text \<open>
  C6, amended. An INSERT on an existing table, whose column list (the declared columns
  when the statement has no list) does not name \<^verbatim>\<open>__proto__\<close>, succeeds with the message
  \<^verbatim>\<open>1 row created.\<close> and the row count 1, and appends one row to the table. The keys of
  the new row are the columns of the list, so a value beyond the last column is stored
  nowhere. The column at position \<open>j\<close> is a key of the new row: it holds the value at
  position \<open>j\<close>, and \<^verbatim>\<open>undefined\<close> when the values end before \<open>j\<close>. A column named twice
  holds the value of its last position. No case is an error.
\<close>

theorem insert_assigns_positionally:
  assumes "search insertRx sql = Some m"
    and "map_of tables (toUpperCase (grpText m 1)) = Some table"
    and "cols = (case grp m 2 of
                   None \<Rightarrow> map c_name (t_columns table)
                 | Some l \<Rightarrow> if l \<noteq> [] then map jsTrim (splitChar CHR '','' l)
                             else map c_name (t_columns table))"
    and "''__proto__'' \<notin> set cols"
    and "vs = parseValues js (grpText m 3)"
  shows "\<exists>newRow.
     success (fst (executeInsert js sql tables)) \<and>
     error (fst (executeInsert js sql tables)) = None \<and>
     message (fst (executeInsert js sql tables)) = Some ''1 row created.'' \<and>
     rowCount (fst (executeInsert js sql tables)) = Some 1 \<and>
     snd (executeInsert js sql tables) =
       AList.update (toUpperCase (grpText m 1)) (table\<lparr>t_data := t_data table @ [newRow]\<rparr>) tables \<and>
     fst ` set newRow = set cols \<and>
     (\<forall>j < length cols. cols ! j \<notin> set (drop (Suc j) cols) \<longrightarrow>
        map_of newRow (cols ! j) = Some (if j < length vs then vs ! j else Undefined))"
proof -
  have keys: "fst ` set (assignColumns 0 [] cols vs) = set cols"
    using assms(4) by (simp add: assign_keys)
  have cells: "\<forall>j < length cols. cols ! j \<notin> set (drop (Suc j) cols) \<longrightarrow>
        map_of (assignColumns 0 [] cols vs) (cols ! j) = Some (if j < length vs then vs ! j else Undefined)"
    using assign_at[of _ cols 0 "[]" vs] assms(4) by (simp add: valueAt_def)
  have run: "executeInsert js sql tables =
      (done_msg ''1 row created.'' 1,
       AList.update (toUpperCase (grpText m 1))
         (table\<lparr>t_data := t_data table @ [assignColumns 0 [] cols vs]\<rparr>) tables)"
    using assms(1,2,3,5) by (simp add: executeInsert_def Let_def)
  show ?thesis
    unfolding run using keys cells
    by (intro exI[of _ "assignColumns 0 [] cols vs"]) (simp add: done_msg_def)
qed

text \<open>Three columns and two values: the third column is a key of the row and holds
  \<^verbatim>\<open>undefined\<close>.\<close>

theorem insert_assigns_positionally_witness:
  "search insertRx ''INSERT INTO T (a,b,c) VALUES (1, 'A')''
     = Some [(1, ''T''), (2, ''a,b,c''), (3, ''1, 'A'' @ [CHR 0x27])]
   \<and> map_of catalogT (toUpperCase ''T'') = Some tableT
   \<and> parseValues wholeNumbers (''1, 'A'' @ [CHR 0x27]) = [Num (Some 1), Str ''A'']
   \<and> (\<exists>newRow.
        message (fst (executeInsert wholeNumbers ''INSERT INTO T (a,b,c) VALUES (1, 'A')'' catalogT))
          = Some ''1 row created.'' \<and>
        snd (executeInsert wholeNumbers ''INSERT INTO T (a,b,c) VALUES (1, 'A')'' catalogT)
          = [(''T'', tableT\<lparr>t_data := t_data tableT @ [newRow]\<rparr>)] \<and>
        fst ` set newRow = {''a'', ''b'', ''c''} \<and>
        map_of newRow ''a'' = Some (Num (Some 1)) \<and> map_of newRow ''b'' = Some (Str ''A'') \<and>
        map_of newRow ''c'' = Some Undefined)"
proof -
  let ?sql = "''INSERT INTO T (a,b,c) VALUES (1, 'A')''"
  let ?m = "[(1, ''T''), (2, ''a,b,c''), (3, ''1, 'A'' @ [CHR 0x27])] :: captures"
  have h1: "search insertRx ?sql = Some ?m"
    by code_simp
  have h2: "map_of catalogT (toUpperCase (grpText ?m 1)) = Some tableT"
    by code_simp
  have h3: "[''a'', ''b'', ''c''] =
      (case grp ?m 2 of
         None \<Rightarrow> map c_name (t_columns tableT)
       | Some l \<Rightarrow> if l \<noteq> [] then map jsTrim (splitChar CHR '','' l)
                   else map c_name (t_columns tableT))"
    by code_simp
  have hp: "''__proto__'' \<notin> set [''a'', ''b'', ''c'']"
    by simp
  have h4: "[Num (Some 1), Str ''A''] = parseValues wholeNumbers (grpText ?m 3)"
    by code_simp
  have k: "toUpperCase (grpText ?m 1) = ''T''" "grpText ?m 3 = ''1, 'A'' @ [CHR 0x27]"
    by code_simp+
  from insert_assigns_positionally[OF h1 h2 h3 hp h4]
  obtain newRow where
    r: "message (fst (executeInsert wholeNumbers ?sql catalogT)) = Some ''1 row created.''"
      "snd (executeInsert wholeNumbers ?sql catalogT) =
         AList.update (toUpperCase (grpText ?m 1)) (tableT\<lparr>t_data := t_data tableT @ [newRow]\<rparr>) catalogT"
      "fst ` set newRow = set [''a'', ''b'', ''c'']"
      "\<forall>j < length [''a'', ''b'', ''c'']. [''a'', ''b'', ''c''] ! j \<notin> set (drop (Suc j) [''a'', ''b'', ''c'']) \<longrightarrow>
         map_of newRow ([''a'', ''b'', ''c''] ! j) =
           Some (if j < length [Num (Some (1::int)), Str ''A''] then [Num (Some 1), Str ''A''] ! j else Undefined)"
    by blast
  from r(4)[rule_format, of 0] have a: "map_of newRow ''a'' = Some (Num (Some 1))" by simp
  from r(4)[rule_format, of 1] have b: "map_of newRow ''b'' = Some (Str ''A'')" by simp
  from r(4)[rule_format, of 2] have c: "map_of newRow ''c'' = Some Undefined" by simp
  from r(2) have s: "snd (executeInsert wholeNumbers ?sql catalogT)
      = [(''T'', tableT\<lparr>t_data := t_data tableT @ [newRow]\<rparr>)]"
    unfolding k by (simp add: catalogT_def)
  from r(3) have ks: "fst ` set newRow = {''a'', ''b'', ''c''}" by simp
  have p2: "map_of catalogT (toUpperCase ''T'') = Some tableT"
    using h2 unfolding k by code_simp
  have p3: "parseValues wholeNumbers (''1, 'A'' @ [CHR 0x27]) = [Num (Some 1), Str ''A'']"
    using h4 unfolding k by simp
  from h1 p2 p3 r(1) s ks a b c show ?thesis by blast
qed

text \<open>Two columns and three values: the third value is dropped.\<close>

lemma insert_excess_value:
  "snd (executeInsert wholeNumbers ''INSERT INTO T (a,b) VALUES (1, 'A', 7)'' catalogT) =
     [(''T'', tableT\<lparr>t_data := t_data tableT @ [[(''a'', Num (Some 1)), (''b'', Str ''A'')]]\<rparr>)]"
  by code_simp



text \<open>
  C8. The plan that \<open>generateExecutionPlan\<close> makes from an operation label, a table name
  and a row count \<open>n\<close> has the operation \<open>LABEL STATEMENT\<close>, the table name in upper case
  as its object, the cost \<open>max 1 (n div 100)\<close>, the cardinality \<open>n\<close>, \<open>n * 100\<close> bytes
  and the time \<^verbatim>\<open>00:00:01\<close>. Its numbers and its time are the same for every label
  and table name.
\<close>

theorem generateExecutionPlan_formula:
  "generateExecutionPlan l t n =
     \<lparr>operation = toUpperCase l @ '' STATEMENT'', object = toUpperCase t,
      cost = max 1 (n div 100), cardinality = n, bytes = n * 100, time = ''00:00:01''\<rparr>
   \<and> cost (generateExecutionPlan l' t' n) = cost (generateExecutionPlan l t n)
   \<and> cardinality (generateExecutionPlan l' t' n) = cardinality (generateExecutionPlan l t n)
   \<and> bytes (generateExecutionPlan l' t' n) = bytes (generateExecutionPlan l t n)
   \<and> time (generateExecutionPlan l' t' n) = time (generateExecutionPlan l t n)"
  by (simp add: generateExecutionPlan_def)

text \<open>
  C9. \<open>executeSelect\<close> and \<open>executeDescribe\<close> leave the catalog they are given, whatever
  the statement and whether they succeed or fail. So does \<open>parseSQL\<close> on every statement
  that it gives to one of the two: one whose normalized text begins, in upper case,
  with \<^verbatim>\<open>SELECT\<close> or with \<^verbatim>\<open>DESC\<close>.
\<close>

theorem select_describe_keep_catalog:
  "snd (executeSelect js q tables) = tables \<and> snd (executeDescribe js q tables) = tables \<and>
   (startsWith (toUpperCase (normalizeOracleSQL
        (replaceFirst [Chr CHR '';'', Eol] [] (jsTrim sql)))) ''SELECT'' \<or>
    startsWith (toUpperCase (normalizeOracleSQL
        (replaceFirst [Chr CHR '';'', Eol] [] (jsTrim sql)))) ''DESC''
    \<longrightarrow> snd (parseSQL js sql tables) = tables)"
  using parseSQL_select[of sql js tables] parseSQL_describe[of sql js tables]
  by (auto simp: executeSelect_frame executeDescribe_frame)

theorem select_describe_keep_catalog_witness:
  "startsWith (toUpperCase (normalizeOracleSQL
      (replaceFirst [Chr CHR '';'', Eol] [] (jsTrim ''select * from t where id = 1;'')))) ''SELECT''
   \<and> success (fst (parseSQL wholeNumbers ''select * from t where id = 1;'' catalogT))
   \<and> snd (parseSQL wholeNumbers ''select * from t where id = 1;'' catalogT) = catalogT"
proof -
  have h: "startsWith (toUpperCase (normalizeOracleSQL
      (replaceFirst [Chr CHR '';'', Eol] [] (jsTrim ''select * from t where id = 1;'')))) ''SELECT''"
    by code_simp
  have s: "success (fst (parseSQL wholeNumbers ''select * from t where id = 1;'' catalogT))"
    by code_simp
  from select_describe_keep_catalog[of wholeNumbers "[]" catalogT "''select * from t where id = 1;''"] h s
  show ?thesis by blast
qed

text \<open>
  C10. A condition that the condition pattern does not match passes the test of the loop:
  it is skipped, not reported. So a WHERE clause none of whose atomic conditions matches
  the pattern is true of every row, and a DELETE with such a clause empties the table and
  reports all its rows as deleted. \<open>m\<close> is what the pattern of \<open>executeDelete\<close> captures
  from the statement.
\<close>

theorem unparseable_where_clause:
  assumes noshape: "\<forall>c \<in> set (atomicConditions w). search conditionRx (jsTrim c) = None"
    and del: "search deleteRx sql = Some m" "grp m 2 = Some w"
    and tab: "map_of tables (toUpperCase (grpText m 1)) = Some table"
  shows "(search conditionRx (jsTrim cond) = None \<longrightarrow> checkCondition js row cond) \<and>
     (\<forall>c \<in> set (atomicConditions w). checkCondition js row c) \<and>
     evaluateWhereClause js row w \<and>
     success (fst (executeDelete js sql tables)) \<and>
     rowCount (fst (executeDelete js sql tables)) = Some (length (t_data table)) \<and>
     snd (executeDelete js sql tables) =
       AList.update (toUpperCase (grpText m 1)) (table\<lparr>t_data := []\<rparr>) tables"
proof -
  have ev: "evaluateWhereClause js r w" for r
    using noshape
    by (simp add: evaluateWhereClause_def atomicConditions_def whereLoop_evens list_all_iff skipped)
  have sk: "\<forall>c \<in> set (atomicConditions w). checkCondition js row c"
    using noshape by (simp add: skipped)
  show ?thesis
    using del tab ev sk by (simp add: executeDelete_def Let_def done_msg_def skipped)
qed

theorem unparseable_where_clause_witness:
  "atomicConditions ''foo'' = [''foo''] \<and> search conditionRx (jsTrim ''foo'') = None
   \<and> search deleteRx ''DELETE FROM T WHERE foo'' = Some [(1, ''T''), (2, ''foo'')]
   \<and> map_of catalogT (toUpperCase ''T'') = Some tableT
   \<and> evaluateWhereClause wholeNumbers [(''ID'', Num (Some 1)), (''NAME'', Str ''A'')] ''foo''
   \<and> rowCount (fst (executeDelete wholeNumbers ''DELETE FROM T WHERE foo'' catalogT)) = Some 1
   \<and> snd (executeDelete wholeNumbers ''DELETE FROM T WHERE foo'' catalogT)
       = [(''T'', tableT\<lparr>t_data := []\<rparr>)]"
proof -
  let ?m = "[(1, ''T''), (2, ''foo'')] :: captures"
  let ?row = "[(''ID'', Num (Some 1)), (''NAME'', Str ''A'')] :: (int option) row"
  have a: "atomicConditions ''foo'' = [''foo'']" by code_simp
  have n: "search conditionRx (jsTrim ''foo'') = None" by code_simp
  have h1: "\<forall>c \<in> set (atomicConditions ''foo''). search conditionRx (jsTrim c) = None"
    unfolding a using n by simp
  have h2: "search deleteRx ''DELETE FROM T WHERE foo'' = Some ?m" by code_simp
  have h3: "grp ?m 2 = Some ''foo''" by code_simp
  have h4: "map_of catalogT (toUpperCase (grpText ?m 1)) = Some tableT" by code_simp
  have k: "toUpperCase (grpText ?m 1) = ''T''" by code_simp
  have l: "length (t_data tableT) = 1" by (simp add: tableT_def)
  from unparseable_where_clause[OF h1 h2 h3 h4, where js = wholeNumbers and row = ?row]
  have "evaluateWhereClause wholeNumbers ?row ''foo''"
    and "rowCount (fst (executeDelete wholeNumbers ''DELETE FROM T WHERE foo'' catalogT)) = Some 1"
    and "snd (executeDelete wholeNumbers ''DELETE FROM T WHERE foo'' catalogT)
           = [(''T'', tableT\<lparr>t_data := []\<rparr>)]"
    unfolding k l by (simp_all add: catalogT_def)
  moreover have "map_of catalogT (toUpperCase ''T'') = Some tableT"
    by code_simp
  ultimately show ?thesis
    using a n h2 by blast
qed



end
